theory Spec2Isabelle
  imports Main
begin

section \<open>The search endpoint of cl/search/api\_views.py\<close>

subsection \<open>Requests, forms and responses\<close>

text \<open>
  \<^verbatim>\<open>request.GET\<close> is a query dictionary, kept as the list of its key/value pairs. The
  view binds the search form to it and hands the whole request to the builder and to the
  paginator.
\<close>

type_synonym querydict = "(string \<times> string) list"

record request =
  GET :: querydict

text \<open>
  The error dictionary of a form: field name to the list of its messages.
\<close>

type_synonym errordict = "(string \<times> string list) list"

text \<open>
  \<^verbatim>\<open>SearchForm\<close> lives in \<^verbatim>\<open>cl.search.forms\<close>. The view reads one key of its cleaned
  data, \<^verbatim>\<open>cd['q']\<close>, a character field that the form declares, so a validated form
  always carries a string there. The remaining cleaned fields are only handed on and
  stay abstract (\<open>'f\<close>).
\<close>

record 'f cleaned_data =
  q :: string
  other_fields :: 'f

record 'f search_form =
  is_valid :: bool
  cleaned_data :: "'f cleaned_data"
  errors :: errordict

text \<open>
  \<^verbatim>\<open>rest_framework.response.Response(data, status=...)\<close>. The view produces two kinds of
  payload: a form's error dictionary and the envelope a paginator builds around the
  serialized page.
\<close>

datatype 'r payload = Errors errordict | Envelope 'r

record 'r response =
  data :: "'r payload"
  status :: nat

definition HTTP_200_OK :: nat where
  "HTTP_200_OK = 200"

definition HTTP_400_BAD_REQUEST :: nat where
  "HTTP_400_BAD_REQUEST = 400"

definition Response :: "'r payload \<Rightarrow> nat \<Rightarrow> 'r response" where
  "Response d s = \<lparr>data = d, status = s\<rparr>"

text \<open>
  The view has no \<^verbatim>\<open>try\<close> and no \<^verbatim>\<open>raise\<close>: an exception that one of its callees raises
  ends the view and goes on to the framework. The framework's paginator raises
  \<^verbatim>\<open>rest_framework.exceptions.NotFound\<close> for a page that is no number or out of range;
  any other exception is kept by its description.
\<close>

datatype exn = NotFound string | Other_exception string

subsection \<open>The collaborators the view calls\<close>

text \<open>
  Everything \<^verbatim>\<open>SearchViewSet.list\<close> calls is defined elsewhere: the form, the builder
  \<^verbatim>\<open>api_utils.get_object_list\<close>, the framework's page-number paginator and the result
  serializer. They are parameters of the model, each with the arguments the view gives
  it. The builder, \<^verbatim>\<open>paginate_queryset\<close> and the serializer (whose \<^verbatim>\<open>data\<close> the view
  reads) either return a value or raise, and so does \<open>conn_schema\<close>, the read of the
  attribute \<^verbatim>\<open>sl.conn.schema\<close> of whatever object the builder returned. The paginator
  is an object the view creates and then passes around; \<^verbatim>\<open>paginate_queryset\<close> stores the
  current page in it, so it returns the paginator too. \<open>envelope\<close> is the ordered
  dictionary (count, next, previous, results) that \<^verbatim>\<open>get_paginated_response\<close> wraps in a
  response.
\<close>

record ('f, 'pg, 'sl, 'page, 'sch, 'd, 'r) collaborators =
  SearchForm :: "querydict \<Rightarrow> 'f search_form"
  PageNumberPagination :: "'pg"
  get_object_list :: "request \<Rightarrow> 'f cleaned_data \<Rightarrow> 'pg \<Rightarrow> exn + 'sl"
  paginate_queryset :: "'pg \<Rightarrow> 'sl \<Rightarrow> request \<Rightarrow> exn + 'page \<times> 'pg"
  conn_schema :: "'sl \<Rightarrow> exn + 'sch"
  SearchResultSerializer :: "'page \<Rightarrow> 'sch \<Rightarrow> exn + 'd"
  envelope :: "'pg \<Rightarrow> 'd \<Rightarrow> 'r"

text \<open>
  The framework's \<^verbatim>\<open>get_paginated_response(data)\<close> returns \<^verbatim>\<open>Response(OrderedDict(...))\<close>
  with no status argument, which is a 200.
\<close>

definition get_paginated_response ::
  "('f, 'pg, 'sl, 'page, 'sch, 'd, 'r) collaborators \<Rightarrow> 'pg \<Rightarrow> 'd \<Rightarrow> 'r response" where
  "get_paginated_response env paginator d = Response (Envelope (envelope env paginator d)) HTTP_200_OK"

text \<open>
  The calls the view makes, in the order it makes them, with their arguments.
\<close>

datatype ('f, 'pg, 'sl, 'page, 'sch, 'd) call =
    Call_SearchForm querydict
  | Call_is_valid
  | Call_PageNumberPagination
  | Call_get_object_list request "'f cleaned_data" 'pg
  | Call_paginate_queryset 'pg 'sl request
  | Call_SearchResultSerializer 'page 'sch
  | Call_get_paginated_response 'pg 'd
  | Call_Response errordict nat

fun is_get_object_list_call :: "('f, 'pg, 'sl, 'page, 'sch, 'd) call \<Rightarrow> bool" where
  "is_get_object_list_call (Call_get_object_list req cd paginator) = True"
| "is_get_object_list_call c = False"

text \<open>
  A run of the view is what it hands back, a response or the exception that ended it,
  together with the calls it made. \<open>step\<close> is one call followed by the rest of the
  view: the call is recorded; if it raises, the view ends there with that exception; if
  it returns, the rest runs on the value returned.
\<close>

definition step ::
  "'c \<Rightarrow> exn + 'a \<Rightarrow> ('a \<Rightarrow> (exn + 'b) \<times> 'c list) \<Rightarrow> (exn + 'b) \<times> 'c list" where
  "step c r k = (case r of Inl e \<Rightarrow> (Inl e, [c]) | Inr x \<Rightarrow> (fst (k x), c # snd (k x)))"

text \<open>
  One definition per callee: it records the call with the arguments it applies the
  callee to, so that the recorded call and the application cannot differ.
\<close>

definition call_SearchForm where
  "call_SearchForm env qd k = step (Call_SearchForm qd) (Inr (SearchForm env qd)) k"

definition call_is_valid where
  "call_is_valid form k = step Call_is_valid (Inr (is_valid form)) k"

definition call_PageNumberPagination where
  "call_PageNumberPagination env k =
     step Call_PageNumberPagination (Inr (PageNumberPagination env)) k"

definition call_get_object_list where
  "call_get_object_list env req cd paginator k =
     step (Call_get_object_list req cd paginator) (get_object_list env req cd paginator) k"

definition call_paginate_queryset where
  "call_paginate_queryset env paginator sl req k =
     step (Call_paginate_queryset paginator sl req) (paginate_queryset env paginator sl req) k"

text \<open>
  The attribute read is no call and is not recorded; it can still end the view.
\<close>

definition read_conn_schema where
  "read_conn_schema env sl k =
     (case conn_schema env sl of Inl e \<Rightarrow> (Inl e, []) | Inr sch \<Rightarrow> k sch)"

definition call_SearchResultSerializer where
  "call_SearchResultSerializer env page sch k =
     step (Call_SearchResultSerializer page sch) (SearchResultSerializer env page sch) k"

definition return_get_paginated_response where
  "return_get_paginated_response env paginator d =
     (Inr (get_paginated_response env paginator d), [Call_get_paginated_response paginator d])"

definition return_Response where
  "return_Response e s = (Inr (Response (Errors e) s), [Call_Response e s])"

subsection \<open>SearchViewSet.list\<close>

definition SearchViewSet_list ::
  "('f, 'pg, 'sl, 'page, 'sch, 'd, 'r) collaborators \<Rightarrow> request
    \<Rightarrow> (exn + 'r response) \<times> ('f, 'pg, 'sl, 'page, 'sch, 'd) call list" where
  "SearchViewSet_list env req =
     call_SearchForm env (GET req) (\<lambda>search_form.
     call_is_valid search_form (\<lambda>valid.
       if valid then
         (let cd = cleaned_data search_form;
              cd = (if q cd = [] then cd\<lparr>q := ''*''\<rparr> else cd)
          in call_PageNumberPagination env (\<lambda>paginator.
             call_get_object_list env req cd paginator (\<lambda>sl.
             call_paginate_queryset env paginator sl req (\<lambda>(result_page, paginator').
             read_conn_schema env sl (\<lambda>schema.
             call_SearchResultSerializer env result_page schema (\<lambda>serializer_data.
             return_get_paginated_response env paginator' serializer_data))))))
       else return_Response (errors search_form) HTTP_400_BAD_REQUEST))"

section \<open>The model viewsets\<close>

subsection \<open>Querysets\<close>

text \<open>
  A queryset is a description of a query: the model, the database alias chosen with
  \<^verbatim>\<open>using\<close> (none until then, which leaves the choice to the router's default), the
  relations to load eagerly, the \<^verbatim>\<open>exclude\<close> calls (each a list of field/value
  keywords) and the ordering (none until \<^verbatim>\<open>order_by\<close>, which leaves the model's own).
\<close>

datatype model =
    OriginatingCourtInformation | Docket | DocketEntry | RECAPDocument | Court
  | OpinionCluster | Opinion | OpinionsCited | Tag

record queryset =
  model :: model
  db :: "string option"
  select_related :: "string list"
  prefetch_related :: "string list"
  exclusions :: "(string \<times> string) list list"
  ordering :: "string list option"

definition objects :: "model \<Rightarrow> queryset" where
  "objects m = \<lparr>model = m, db = None, select_related = [], prefetch_related = [],
     exclusions = [], ordering = None\<rparr>"

definition qs_using :: "string \<Rightarrow> queryset \<Rightarrow> queryset" where
  "qs_using alias qs = qs\<lparr>db := Some alias\<rparr>"

definition qs_all :: "queryset \<Rightarrow> queryset" where
  "qs_all qs = qs"

definition qs_select_related :: "string list \<Rightarrow> queryset \<Rightarrow> queryset" where
  "qs_select_related names qs = qs\<lparr>select_related := select_related qs @ names\<rparr>"

definition qs_prefetch_related :: "string list \<Rightarrow> queryset \<Rightarrow> queryset" where
  "qs_prefetch_related lookups qs = qs\<lparr>prefetch_related := prefetch_related qs @ lookups\<rparr>"

definition qs_exclude :: "(string \<times> string) list \<Rightarrow> queryset \<Rightarrow> queryset" where
  "qs_exclude kwargs qs = qs\<lparr>exclusions := exclusions qs @ [kwargs]\<rparr>"

definition qs_order_by :: "string list \<Rightarrow> queryset \<Rightarrow> queryset" where
  "qs_order_by names qs = qs\<lparr>ordering := Some names\<rparr>"

text \<open>
  What the file takes from elsewhere when it builds a queryset: the alias
  \<^verbatim>\<open>get_api_read_db()\<close> returns and the constant \<^verbatim>\<open>Court.TESTING_COURT\<close>.
\<close>

record externals =
  get_api_read_db :: string
  TESTING_COURT :: string

text \<open>
  Running a queryset against the tables (one list of rows per model and database alias).
  A row is the list of its field/value pairs. A row stays unless one \<^verbatim>\<open>exclude\<close> call
  matches it on all of its keywords. Eager loading and ordering do not change which rows
  come back.
\<close>

type_synonym row = "(string \<times> string) list"

definition matches :: "row \<Rightarrow> string \<times> string \<Rightarrow> bool" where
  "matches r kw = (map_of r (fst kw) = Some (snd kw))"

definition database_of :: "queryset \<Rightarrow> string" where
  "database_of qs = (case db qs of None \<Rightarrow> ''default'' | Some alias \<Rightarrow> alias)"

definition run_query :: "(model \<Rightarrow> string \<Rightarrow> row list) \<Rightarrow> queryset \<Rightarrow> row list" where
  "run_query tables qs =
     filter (\<lambda>r. list_all (\<lambda>kwargs. \<not> list_all (matches r) kwargs) (exclusions qs))
       (tables (model qs) (database_of qs))"

text \<open>
  The framework's generic handlers serve a selection of the rows of \<^verbatim>\<open>get_queryset()\<close>:
  \<^verbatim>\<open>list\<close> filters them with the request's filters and returns one page, \<^verbatim>\<open>retrieve\<close>
  looks one row up by its key among the filtered rows.
\<close>

definition ModelViewSet_list :: "(row \<Rightarrow> bool) \<Rightarrow> nat \<Rightarrow> nat \<Rightarrow> row list \<Rightarrow> row list" where
  "ModelViewSet_list request_filter offset page_size rows =
     take page_size (drop offset (filter request_filter rows))"

definition ModelViewSet_retrieve :: "(row \<Rightarrow> bool) \<Rightarrow> string \<Rightarrow> row list \<Rightarrow> row option" where
  "ModelViewSet_retrieve request_filter pk rows =
     find (\<lambda>r. map_of r ''pk'' = Some pk) (filter request_filter rows)"

subsection \<open>The get\_queryset methods\<close>

definition OriginatingCourtInformationViewSet_get_queryset :: "externals \<Rightarrow> queryset" where
  "OriginatingCourtInformationViewSet_get_queryset ext =
     qs_all (qs_using (get_api_read_db ext) (objects OriginatingCourtInformation))"

definition DocketViewSet_get_queryset :: "externals \<Rightarrow> queryset" where
  "DocketViewSet_get_queryset ext =
     qs_prefetch_related [''panel'', ''clusters'', ''audio_files'', ''tags'']
       (qs_select_related
          [''court'', ''assigned_to'', ''referred_to'', ''originating_court_information'',
           ''idb_data'']
          (qs_using (get_api_read_db ext) (objects Docket)))"

definition DocketEntryViewSet_get_queryset :: "externals \<Rightarrow> queryset" where
  "DocketEntryViewSet_get_queryset ext =
     qs_order_by []
       (qs_prefetch_related [''recap_documents'', ''recap_documents__tags'', ''tags'']
          (qs_select_related [''docket'']
             (qs_using (get_api_read_db ext) (objects DocketEntry))))"

definition RECAPDocumentViewSet_get_queryset :: "externals \<Rightarrow> queryset" where
  "RECAPDocumentViewSet_get_queryset ext =
     qs_order_by []
       (qs_prefetch_related [''tags'']
          (qs_select_related [''docket_entry'', ''docket_entry__docket'']
             (qs_using (get_api_read_db ext) (objects RECAPDocument))))"

definition CourtViewSet_get_queryset :: "externals \<Rightarrow> queryset" where
  "CourtViewSet_get_queryset ext =
     qs_exclude [(''jurisdiction'', TESTING_COURT ext)]
       (qs_using (get_api_read_db ext) (objects Court))"

definition OpinionClusterViewSet_get_queryset :: "externals \<Rightarrow> queryset" where
  "OpinionClusterViewSet_get_queryset ext =
     qs_prefetch_related [''sub_opinions'', ''panel'', ''non_participating_judges'', ''citations'']
       (qs_using (get_api_read_db ext) (objects OpinionCluster))"

definition OpinionViewSet_get_queryset :: "externals \<Rightarrow> queryset" where
  "OpinionViewSet_get_queryset ext =
     qs_prefetch_related [''opinions_cited'', ''joined_by'']
       (qs_select_related [''cluster'', ''author'']
          (qs_using (get_api_read_db ext) (objects Opinion)))"

definition OpinionsCitedViewSet_get_queryset :: "externals \<Rightarrow> queryset" where
  "OpinionsCitedViewSet_get_queryset ext =
     qs_all (qs_using (get_api_read_db ext) (objects OpinionsCited))"

definition TagViewSet_get_queryset :: "externals \<Rightarrow> queryset" where
  "TagViewSet_get_queryset ext =
     qs_all (qs_using (get_api_read_db ext) (objects Tag))"

subsection \<open>The classes\<close>

text \<open>
  A viewset class as the file declares it: its name, its base classes, the class
  attributes (\<open>None\<close> where the class body does not set one, so the framework's default
  applies), its \<^verbatim>\<open>get_queryset\<close> method if it defines one, and the handlers its own body
  defines.
\<close>

datatype base = LoggingMixin | CacheListMixin | ModelViewSet | ViewSet

datatype serializer =
    OriginalCourtInformationSerializer | DocketSerializer | DocketEntrySerializer
  | RECAPDocumentSerializer | CourtSerializer | OpinionClusterSerializer
  | OpinionSerializer | OpinionsCitedSerializer | TagSerializer

datatype filter_set =
    DocketFilter | DocketEntryFilter | RECAPDocumentFilter | CourtFilter
  | OpinionClusterFilter | OpinionFilter | OpinionsCitedFilter

datatype permission = RECAPUsersReadOnly | AllowAny

datatype action = A_list | A_retrieve | A_create | A_update | A_partial_update | A_destroy

record viewset =
  name :: string
  bases :: "base list"
  permission_classes :: "permission list option"
  serializer_class :: "serializer option"
  filter_class :: "filter_set option"
  ordering_fields :: "string list option"
  get_queryset :: "(externals \<Rightarrow> queryset) option"
  own_handlers :: "action list"

definition OriginatingCourtInformationViewSet :: viewset where
  "OriginatingCourtInformationViewSet =
     \<lparr>name = ''OriginatingCourtInformationViewSet'', bases = [ModelViewSet],
      permission_classes = None,
      serializer_class = Some OriginalCourtInformationSerializer,
      filter_class = None, ordering_fields = None,
      get_queryset = Some OriginatingCourtInformationViewSet_get_queryset,
      own_handlers = []\<rparr>"

definition DocketViewSet :: viewset where
  "DocketViewSet =
     \<lparr>name = ''DocketViewSet'', bases = [LoggingMixin, ModelViewSet],
      permission_classes = None,
      serializer_class = Some DocketSerializer,
      filter_class = Some DocketFilter,
      ordering_fields = Some
        [''date_created'', ''date_modified'', ''date_argued'', ''date_reargued'',
         ''date_reargument_denied'', ''date_blocked'', ''date_cert_granted'',
         ''date_cert_denied'', ''date_filed'', ''date_terminated'', ''date_last_filing''],
      get_queryset = Some DocketViewSet_get_queryset,
      own_handlers = []\<rparr>"

definition DocketEntryViewSet :: viewset where
  "DocketEntryViewSet =
     \<lparr>name = ''DocketEntryViewSet'', bases = [LoggingMixin, ModelViewSet],
      permission_classes = Some [RECAPUsersReadOnly],
      serializer_class = Some DocketEntrySerializer,
      filter_class = Some DocketEntryFilter,
      ordering_fields = Some [''date_created'', ''date_modified'', ''date_filed''],
      get_queryset = Some DocketEntryViewSet_get_queryset,
      own_handlers = []\<rparr>"

definition RECAPDocumentViewSet :: viewset where
  "RECAPDocumentViewSet =
     \<lparr>name = ''RECAPDocumentViewSet'', bases = [LoggingMixin, CacheListMixin, ModelViewSet],
      permission_classes = Some [RECAPUsersReadOnly],
      serializer_class = Some RECAPDocumentSerializer,
      filter_class = Some RECAPDocumentFilter,
      ordering_fields = Some [''date_created'', ''date_modified'', ''date_upload''],
      get_queryset = Some RECAPDocumentViewSet_get_queryset,
      own_handlers = []\<rparr>"

definition CourtViewSet :: viewset where
  "CourtViewSet =
     \<lparr>name = ''CourtViewSet'', bases = [LoggingMixin, ModelViewSet],
      permission_classes = None,
      serializer_class = Some CourtSerializer,
      filter_class = Some CourtFilter,
      ordering_fields = Some [''date_modified'', ''position'', ''start_date'', ''end_date''],
      get_queryset = Some CourtViewSet_get_queryset,
      own_handlers = []\<rparr>"

definition OpinionClusterViewSet :: viewset where
  "OpinionClusterViewSet =
     \<lparr>name = ''OpinionClusterViewSet'', bases = [LoggingMixin, ModelViewSet],
      permission_classes = None,
      serializer_class = Some OpinionClusterSerializer,
      filter_class = Some OpinionClusterFilter,
      ordering_fields = Some
        [''date_created'', ''date_modified'', ''date_filed'', ''citation_count'',
         ''date_blocked''],
      get_queryset = Some OpinionClusterViewSet_get_queryset,
      own_handlers = []\<rparr>"

definition OpinionViewSet :: viewset where
  "OpinionViewSet =
     \<lparr>name = ''OpinionViewSet'', bases = [LoggingMixin, ModelViewSet],
      permission_classes = None,
      serializer_class = Some OpinionSerializer,
      filter_class = Some OpinionFilter,
      ordering_fields = Some [''id'', ''date_created'', ''date_modified''],
      get_queryset = Some OpinionViewSet_get_queryset,
      own_handlers = []\<rparr>"

definition OpinionsCitedViewSet :: viewset where
  "OpinionsCitedViewSet =
     \<lparr>name = ''OpinionsCitedViewSet'', bases = [LoggingMixin, ModelViewSet],
      permission_classes = None,
      serializer_class = Some OpinionsCitedSerializer,
      filter_class = Some OpinionsCitedFilter,
      ordering_fields = None,
      get_queryset = Some OpinionsCitedViewSet_get_queryset,
      own_handlers = []\<rparr>"

definition TagViewSet :: viewset where
  "TagViewSet =
     \<lparr>name = ''TagViewSet'', bases = [LoggingMixin, ModelViewSet],
      permission_classes = Some [RECAPUsersReadOnly],
      serializer_class = Some TagSerializer,
      filter_class = None,
      ordering_fields = None,
      get_queryset = Some TagViewSet_get_queryset,
      own_handlers = []\<rparr>"

text \<open>
  \<^verbatim>\<open>SearchViewSet\<close> sets its permission classes and defines \<^verbatim>\<open>list\<close>, modelled above as
  \<^const>\<open>SearchViewSet_list\<close>; it passes \<^verbatim>\<open>SearchResultSerializer\<close> the page itself and has
  no \<^verbatim>\<open>serializer_class\<close> attribute.
\<close>

definition SearchViewSet :: viewset where
  "SearchViewSet =
     \<lparr>name = ''SearchViewSet'', bases = [LoggingMixin, ViewSet],
      permission_classes = Some [AllowAny],
      serializer_class = None,
      filter_class = None,
      ordering_fields = None,
      get_queryset = None,
      own_handlers = [A_list]\<rparr>"

definition viewsets :: "viewset list" where
  "viewsets =
     [OriginatingCourtInformationViewSet, DocketViewSet, DocketEntryViewSet,
      RECAPDocumentViewSet, CourtViewSet, OpinionClusterViewSet, OpinionViewSet,
      OpinionsCitedViewSet, TagViewSet, SearchViewSet]"

text \<open>
  The handlers a class exposes: the framework's \<^verbatim>\<open>ModelViewSet\<close> brings the six of its
  mixins, a plain \<^verbatim>\<open>ViewSet\<close> brings none, and the two mixins of \<^verbatim>\<open>cl.api.utils\<close> wrap
  handlers without adding one to the set.
\<close>

fun base_handlers :: "base \<Rightarrow> action list" where
  "base_handlers ModelViewSet =
     [A_create, A_retrieve, A_update, A_partial_update, A_destroy, A_list]"
| "base_handlers ViewSet = []"
| "base_handlers LoggingMixin = []"
| "base_handlers CacheListMixin = []"

definition handlers :: "viewset \<Rightarrow> action list" where
  "handlers v = own_handlers v @ concat (map base_handlers (bases v))"

section \<open>Example inputs\<close>

text \<open>
  A small instance of the collaborators, for evaluating the view. \<^verbatim>\<open>QueryDict.get\<close>
  returns the last value given for a key. The form rejects a \<^verbatim>\<open>type\<close> other than
  \<^verbatim>\<open>o\<close>; the builder finds three documents for the query \<^verbatim>\<open>*\<close> and one for any other.
\<close>

definition querydict_get :: "querydict \<Rightarrow> string \<Rightarrow> string option" where
  "querydict_get qd k = map_of (rev qd) k"

definition example_form :: "querydict \<Rightarrow> unit search_form" where
  "example_form qd =
     (let ok = (querydict_get qd ''type'' = None \<or> querydict_get qd ''type'' = Some ''o'') in
      \<lparr>is_valid = ok,
       cleaned_data = \<lparr>q = (case querydict_get qd ''q'' of None \<Rightarrow> [] | Some s \<Rightarrow> s),
                       other_fields = ()\<rparr>,
       errors = (if ok then [] else [(''type'', [''Select a valid choice.''])])\<rparr>)"

text \<open>
  The paginator as the framework's \<^verbatim>\<open>PageNumberPagination\<close> behaves with a page size of
  two: the page number is the \<^verbatim>\<open>page\<close> parameter (1 when absent, the last page for
  \<^verbatim>\<open>last\<close>); a value that is no number, or a number below 1 or past the last page,
  raises \<^verbatim>\<open>NotFound\<close>; an empty list still has its first page. The paginator
  remembers how many results there were.
\<close>

definition digit_value :: "char \<Rightarrow> nat option" where
  "digit_value c =
     map_of [(CHR ''0'', 0), (CHR ''1'', 1), (CHR ''2'', 2), (CHR ''3'', 3), (CHR ''4'', 4),
             (CHR ''5'', 5), (CHR ''6'', 6), (CHR ''7'', 7), (CHR ''8'', 8), (CHR ''9'', 9)] c"

fun parse_digits :: "nat \<Rightarrow> string \<Rightarrow> nat option" where
  "parse_digits acc [] = Some acc"
| "parse_digits acc (c # cs) =
     (case digit_value c of None \<Rightarrow> None | Some d \<Rightarrow> parse_digits (10 * acc + d) cs)"

definition example_paginate_queryset ::
  "nat \<Rightarrow> string list \<Rightarrow> request \<Rightarrow> exn + string list \<times> nat" where
  "example_paginate_queryset paginator sl req =
     (let num_pages = (max 1 (length sl) + 1) div 2;
          page_number =
            (case querydict_get (GET req) ''page'' of
               None \<Rightarrow> Some 1
             | Some s \<Rightarrow> if s = ''last'' then Some num_pages
                         else if s = [] then None else parse_digits 0 s)
      in case page_number of
           None \<Rightarrow> Inl (NotFound ''Invalid page.'')
         | Some n \<Rightarrow>
             if n < 1 \<or> num_pages < n then Inl (NotFound ''Invalid page.'')
             else Inr (take 2 (drop (2 * (n - 1)) sl), length sl))"

definition example_env ::
  "(unit, nat, string list, string list, string, string list, nat \<times> string list) collaborators" where
  "example_env =
     \<lparr>SearchForm = example_form,
      PageNumberPagination = 0,
      get_object_list = (\<lambda>req cd pg. Inr (if q cd = ''*'' then [''a'', ''b'', ''c''] else [q cd])),
      paginate_queryset = example_paginate_queryset,
      conn_schema = (\<lambda>sl. Inr ''s''),
      SearchResultSerializer = (\<lambda>page sch. Inr (map (\<lambda>x. sch @ x) page)),
      envelope = (\<lambda>pg d. (pg, d))\<rparr>"

definition example_externals :: externals where
  "example_externals = \<lparr>get_api_read_db = ''replica'', TESTING_COURT = ''T''\<rparr>"

definition example_tables :: "model \<Rightarrow> string \<Rightarrow> row list" where
  "example_tables m alias =
     (if m = Court \<and> alias = ''replica''
      then [[(''pk'', ''scotus''), (''jurisdiction'', ''F'')],
            [(''pk'', ''test''), (''jurisdiction'', ''T'')]]
      else [])"

section \<open>Predicates of the specification\<close>

definition has_eager_loading :: "queryset \<Rightarrow> bool" where
  "has_eager_loading qs = (select_related qs @ prefetch_related qs \<noteq> [])"

definition selects_all_four :: "externals \<Rightarrow> viewset \<Rightarrow> bool" where
  "selects_all_four ext v =
     (serializer_class v \<noteq> None \<and> filter_class v \<noteq> None \<and> permission_classes v \<noteq> None \<and>
      (case get_queryset v of None \<Rightarrow> False | Some g \<Rightarrow> has_eager_loading (g ext)))"

definition is_model_viewset :: "viewset \<Rightarrow> bool" where
  "is_model_viewset v = (get_queryset v \<noteq> None)"

definition declares_filter_and_ordering :: "viewset \<Rightarrow> bool" where
  "declares_filter_and_ordering v = (filter_class v \<noteq> None \<and> ordering_fields v \<noteq> None)"

lemmas viewset_defs =
  OriginatingCourtInformationViewSet_def DocketViewSet_def DocketEntryViewSet_def
  RECAPDocumentViewSet_def CourtViewSet_def OpinionClusterViewSet_def OpinionViewSet_def
  OpinionsCitedViewSet_def TagViewSet_def SearchViewSet_def

lemmas get_queryset_defs =
  OriginatingCourtInformationViewSet_get_queryset_def DocketViewSet_get_queryset_def
  DocketEntryViewSet_get_queryset_def RECAPDocumentViewSet_get_queryset_def
  CourtViewSet_get_queryset_def OpinionClusterViewSet_get_queryset_def
  OpinionViewSet_get_queryset_def OpinionsCitedViewSet_get_queryset_def
  TagViewSet_get_queryset_def

lemmas qs_defs =
  objects_def qs_using_def qs_all_def qs_select_related_def qs_prefetch_related_def
  qs_exclude_def qs_order_by_def

lemmas http_defs = Response_def get_paginated_response_def HTTP_200_OK_def HTTP_400_BAD_REQUEST_def

lemmas call_defs =
  step_def call_SearchForm_def call_is_valid_def call_PageNumberPagination_def
  call_get_object_list_def call_paginate_queryset_def read_conn_schema_def
  call_SearchResultSerializer_def return_get_paginated_response_def return_Response_def

lemmas example_defs =
  example_env_def example_form_def example_paginate_queryset_def querydict_get_def
  digit_value_def

section \<open>The search endpoint: what the view returns and calls\<close>

lemma list_invalid:
  "\<not> is_valid (SearchForm env (GET req)) \<Longrightarrow>
   SearchViewSet_list env req =
     (Inr (Response (Errors (errors (SearchForm env (GET req)))) HTTP_400_BAD_REQUEST),
      [Call_SearchForm (GET req), Call_is_valid,
       Call_Response (errors (SearchForm env (GET req))) HTTP_400_BAD_REQUEST])"
  by (simp add: SearchViewSet_list_def call_defs)

lemma list_valid:
  assumes "is_valid (SearchForm env (GET req))"
    and "cd = (if q (cleaned_data (SearchForm env (GET req))) = []
               then (cleaned_data (SearchForm env (GET req)))\<lparr>q := ''*''\<rparr>
               else cleaned_data (SearchForm env (GET req)))"
    and "pg = PageNumberPagination env"
  shows "SearchViewSet_list env req =
     (case get_object_list env req cd pg of
        Inl e \<Rightarrow>
          (Inl e, [Call_SearchForm (GET req), Call_is_valid, Call_PageNumberPagination,
                   Call_get_object_list req cd pg])
      | Inr sl \<Rightarrow>
          (case paginate_queryset env pg sl req of
             Inl e \<Rightarrow>
               (Inl e, [Call_SearchForm (GET req), Call_is_valid, Call_PageNumberPagination,
                        Call_get_object_list req cd pg, Call_paginate_queryset pg sl req])
           | Inr (page, pg') \<Rightarrow>
               (case conn_schema env sl of
                  Inl e \<Rightarrow>
                    (Inl e, [Call_SearchForm (GET req), Call_is_valid, Call_PageNumberPagination,
                             Call_get_object_list req cd pg, Call_paginate_queryset pg sl req])
                | Inr sch \<Rightarrow>
                    (case SearchResultSerializer env page sch of
                       Inl e \<Rightarrow>
                         (Inl e, [Call_SearchForm (GET req), Call_is_valid,
                                  Call_PageNumberPagination, Call_get_object_list req cd pg,
                                  Call_paginate_queryset pg sl req,
                                  Call_SearchResultSerializer page sch])
                     | Inr d \<Rightarrow>
                         (Inr (get_paginated_response env pg' d),
                          [Call_SearchForm (GET req), Call_is_valid, Call_PageNumberPagination,
                           Call_get_object_list req cd pg, Call_paginate_queryset pg sl req,
                           Call_SearchResultSerializer page sch,
                           Call_get_paginated_response pg' d])))))"
  using assms
  by (simp add: SearchViewSet_list_def call_defs Let_def split: sum.splits prod.splits)

text \<open>
  C1 as stated fails: a valid form does not always lead to a paginated response. With the
  query \<^verbatim>\<open>roe\<close>, which has one page of results, and \<^verbatim>\<open>page=99\<close> the form is valid and
  the paginator raises \<^verbatim>\<open>NotFound\<close>, which the view does not catch.
\<close>

theorem valid_search_may_raise_not_found:
  "is_valid (SearchForm example_env (GET \<lparr>GET = [(''q'', ''roe''), (''page'', ''99'')]\<rparr>))
   \<and> fst (SearchViewSet_list example_env \<lparr>GET = [(''q'', ''roe''), (''page'', ''99'')]\<rparr>)
       = Inl (NotFound ''Invalid page.'')"
  by (simp add: SearchViewSet_list_def call_defs example_defs Let_def)

text \<open>
  C1. \<^verbatim>\<open>SearchViewSet.list\<close> returns the 400 response carrying the form's field errors
  exactly when the search form built from the query parameters is invalid. When the form
  is valid, it hands back what the builder, the paginator and the serializer make of the
  cleaned data (its \<open>q\<close> set to \<^verbatim>\<open>*\<close> when empty): the exception of the first step
  that raises, and the paginator's response for the serialized page of the built object
  list when none does.
\<close>

theorem list_400_iff_form_invalid:
  "(fst (SearchViewSet_list env req) =
      Inr (Response (Errors (errors (SearchForm env (GET req)))) HTTP_400_BAD_REQUEST))
    = (\<not> is_valid (SearchForm env (GET req)))
   \<and> (is_valid (SearchForm env (GET req)) \<longrightarrow>
       fst (SearchViewSet_list env req) =
         (let cd = cleaned_data (SearchForm env (GET req));
              cd = (if q cd = [] then cd\<lparr>q := ''*''\<rparr> else cd);
              pg = PageNumberPagination env
          in case get_object_list env req cd pg of
               Inl e \<Rightarrow> Inl e
             | Inr sl \<Rightarrow>
                 (case paginate_queryset env pg sl req of
                    Inl e \<Rightarrow> Inl e
                  | Inr (page, pg') \<Rightarrow>
                      (case conn_schema env sl of
                         Inl e \<Rightarrow> Inl e
                       | Inr sch \<Rightarrow>
                           (case SearchResultSerializer env page sch of
                              Inl e \<Rightarrow> Inl e
                            | Inr d \<Rightarrow> Inr (get_paginated_response env pg' d))))))"
proof (cases "is_valid (SearchForm env (GET req))")
  case False
  then show ?thesis by (simp add: list_invalid)
next
  case True
  note eq = list_valid [OF True refl refl]
  have a: "fst (SearchViewSet_list env req) \<noteq>
      Inr (Response (Errors (errors (SearchForm env (GET req)))) HTTP_400_BAD_REQUEST)"
    by (simp add: eq http_defs split: sum.splits prod.splits)
  have b: "fst (SearchViewSet_list env req) =
         (let cd = cleaned_data (SearchForm env (GET req));
              cd = (if q cd = [] then cd\<lparr>q := ''*''\<rparr> else cd);
              pg = PageNumberPagination env
          in case get_object_list env req cd pg of
               Inl e \<Rightarrow> Inl e
             | Inr sl \<Rightarrow>
                 (case paginate_queryset env pg sl req of
                    Inl e \<Rightarrow> Inl e
                  | Inr (page, pg') \<Rightarrow>
                      (case conn_schema env sl of
                         Inl e \<Rightarrow> Inl e
                       | Inr sch \<Rightarrow>
                           (case SearchResultSerializer env page sch of
                              Inl e \<Rightarrow> Inl e
                            | Inr d \<Rightarrow> Inr (get_paginated_response env pg' d)))))"
    by (simp add: eq Let_def split: sum.splits prod.splits)
  from a b True show ?thesis by blast
qed

text \<open>
  The query \<^verbatim>\<open>roe\<close> gives a page with its one result; a \<^verbatim>\<open>type\<close> the example form
  rejects gives the 400 with the field's message.
\<close>

theorem list_400_iff_form_invalid_witness:
  "is_valid (SearchForm example_env (GET \<lparr>GET = [(''q'', ''roe'')]\<rparr>))
   \<and> fst (SearchViewSet_list example_env \<lparr>GET = [(''q'', ''roe'')]\<rparr>)
       = Inr \<lparr>data = Envelope (1, [''sroe'']), status = 200\<rparr>
   \<and> \<not> is_valid (SearchForm example_env (GET \<lparr>GET = [(''type'', ''x'')]\<rparr>))
   \<and> fst (SearchViewSet_list example_env \<lparr>GET = [(''type'', ''x'')]\<rparr>)
       = Inr \<lparr>data = Errors [(''type'', [''Select a valid choice.''])], status = 400\<rparr>"
proof -
  let ?r = "\<lparr>GET = [(''q'', ''roe'')]\<rparr>"
  let ?s = "\<lparr>GET = [(''type'', ''x'')]\<rparr>"
  have v: "is_valid (SearchForm example_env (GET ?r))"
    by (simp add: example_defs)
  have w: "\<not> is_valid (SearchForm example_env (GET ?s))"
    by (simp add: example_defs)
  have e: "Response (Errors (errors (SearchForm example_env (GET ?s)))) HTTP_400_BAD_REQUEST
      = \<lparr>data = Errors [(''type'', [''Select a valid choice.''])], status = 400\<rparr>"
    by (simp add: example_defs http_defs)
  have p: "(let cd = cleaned_data (SearchForm example_env (GET ?r));
                cd = (if q cd = [] then cd\<lparr>q := ''*''\<rparr> else cd);
                pg = PageNumberPagination example_env
            in case get_object_list example_env ?r cd pg of
                 Inl e \<Rightarrow> Inl e
               | Inr sl \<Rightarrow>
                   (case paginate_queryset example_env pg sl ?r of
                      Inl e \<Rightarrow> Inl e
                    | Inr (page, pg') \<Rightarrow>
                        (case conn_schema example_env sl of
                           Inl e \<Rightarrow> Inl e
                         | Inr sch \<Rightarrow>
                             (case SearchResultSerializer example_env page sch of
                                Inl e \<Rightarrow> Inl e
                              | Inr d \<Rightarrow> Inr (get_paginated_response example_env pg' d)))))
      = Inr \<lparr>data = Envelope (1, [''sroe'']), status = 200\<rparr>"
    by (simp add: example_defs http_defs Let_def)
  from list_400_iff_form_invalid [of example_env ?r] v
  have "fst (SearchViewSet_list example_env ?r)
      = Inr \<lparr>data = Envelope (1, [''sroe'']), status = 200\<rparr>"
    unfolding p by blast
  moreover from list_400_iff_form_invalid [of example_env ?s] w
  have "fst (SearchViewSet_list example_env ?s)
       = Inr \<lparr>data = Errors [(''type'', [''Select a valid choice.''])], status = 400\<rparr>"
    unfolding e by blast
  ultimately show ?thesis using v w by blast
qed

text \<open>
  C2 as stated fails: a valid form does not always go through all the steps. With
  \<^verbatim>\<open>page=abc\<close> the form is valid and the view stops at \<^verbatim>\<open>paginate_queryset\<close>, which
  raises: nothing is serialized and no response is returned.
\<close>

theorem valid_search_may_stop_at_pagination:
  "is_valid (SearchForm example_env (GET \<lparr>GET = [(''page'', ''abc'')]\<rparr>))
   \<and> SearchViewSet_list example_env \<lparr>GET = [(''page'', ''abc'')]\<rparr> =
       (Inl (NotFound ''Invalid page.''),
        [Call_SearchForm [(''page'', ''abc'')], Call_is_valid, Call_PageNumberPagination,
         Call_get_object_list \<lparr>GET = [(''page'', ''abc'')]\<rparr> \<lparr>q = ''*'', other_fields = ()\<rparr> 0,
         Call_paginate_queryset 0 [''a'', ''b'', ''c''] \<lparr>GET = [(''page'', ''abc'')]\<rparr>])"
  by (simp add: SearchViewSet_list_def call_defs example_defs Let_def)

text \<open>
  C2. When the form validates, the view makes these calls, in this order, up to the first
  step that raises: it binds the query parameters to the form, validates it, creates a
  page-number paginator, hands the cleaned data (its \<open>q\<close> set to \<^verbatim>\<open>*\<close> when empty) and
  that paginator to \<^verbatim>\<open>get_object_list\<close>, paginates the object list with the same
  paginator, serializes the page with the list's schema and returns that paginator's
  response for the serialized data. The first four calls are always made, and the view
  returns a response exactly when it made all seven.
\<close>

theorem list_valid_steps:
  assumes "is_valid (SearchForm env (GET req))"
  shows "SearchViewSet_list env req =
     (let cd = cleaned_data (SearchForm env (GET req));
          cd = (if q cd = [] then cd\<lparr>q := ''*''\<rparr> else cd);
          pg = PageNumberPagination env;
          bound = [Call_SearchForm (GET req), Call_is_valid, Call_PageNumberPagination,
                   Call_get_object_list req cd pg]
      in case get_object_list env req cd pg of
           Inl e \<Rightarrow> (Inl e, bound)
         | Inr sl \<Rightarrow>
             (case paginate_queryset env pg sl req of
                Inl e \<Rightarrow> (Inl e, bound @ [Call_paginate_queryset pg sl req])
              | Inr (page, pg') \<Rightarrow>
                  (case conn_schema env sl of
                     Inl e \<Rightarrow> (Inl e, bound @ [Call_paginate_queryset pg sl req])
                   | Inr sch \<Rightarrow>
                       (case SearchResultSerializer env page sch of
                          Inl e \<Rightarrow>
                            (Inl e, bound @ [Call_paginate_queryset pg sl req,
                                             Call_SearchResultSerializer page sch])
                        | Inr d \<Rightarrow>
                            (Inr (get_paginated_response env pg' d),
                             bound @ [Call_paginate_queryset pg sl req,
                                      Call_SearchResultSerializer page sch,
                                      Call_get_paginated_response pg' d])))))
   \<and> (length (snd (SearchViewSet_list env req)) = 7)
       = (\<exists>r. fst (SearchViewSet_list env req) = Inr r)
   \<and> 4 \<le> length (snd (SearchViewSet_list env req))
   \<and> length (snd (SearchViewSet_list env req)) \<le> 7"
proof -
  note eq = list_valid [OF assms refl refl]
  have a: "SearchViewSet_list env req =
     (let cd = cleaned_data (SearchForm env (GET req));
          cd = (if q cd = [] then cd\<lparr>q := ''*''\<rparr> else cd);
          pg = PageNumberPagination env;
          bound = [Call_SearchForm (GET req), Call_is_valid, Call_PageNumberPagination,
                   Call_get_object_list req cd pg]
      in case get_object_list env req cd pg of
           Inl e \<Rightarrow> (Inl e, bound)
         | Inr sl \<Rightarrow>
             (case paginate_queryset env pg sl req of
                Inl e \<Rightarrow> (Inl e, bound @ [Call_paginate_queryset pg sl req])
              | Inr (page, pg') \<Rightarrow>
                  (case conn_schema env sl of
                     Inl e \<Rightarrow> (Inl e, bound @ [Call_paginate_queryset pg sl req])
                   | Inr sch \<Rightarrow>
                       (case SearchResultSerializer env page sch of
                          Inl e \<Rightarrow>
                            (Inl e, bound @ [Call_paginate_queryset pg sl req,
                                             Call_SearchResultSerializer page sch])
                        | Inr d \<Rightarrow>
                            (Inr (get_paginated_response env pg' d),
                             bound @ [Call_paginate_queryset pg sl req,
                                      Call_SearchResultSerializer page sch,
                                      Call_get_paginated_response pg' d])))))"
    by (simp add: eq Let_def split: sum.splits prod.splits)
  have b: "(length (snd (SearchViewSet_list env req)) = 7)
       = (\<exists>r. fst (SearchViewSet_list env req) = Inr r)"
    by (simp add: eq split: sum.splits prod.splits)
  have c: "4 \<le> length (snd (SearchViewSet_list env req))"
    by (simp add: eq split: sum.splits prod.splits)
  have d: "length (snd (SearchViewSet_list env req)) \<le> 7"
    by (simp add: eq split: sum.splits prod.splits)
  from a b c d show ?thesis by blast
qed

text \<open>
  A request with no query: all seven calls, the first page of the three documents.
\<close>

theorem list_valid_steps_witness:
  "is_valid (SearchForm example_env (GET \<lparr>GET = [(''type'', ''o'')]\<rparr>))
   \<and> SearchViewSet_list example_env \<lparr>GET = [(''type'', ''o'')]\<rparr> =
       (Inr \<lparr>data = Envelope (3, [''sa'', ''sb'']), status = 200\<rparr>,
        [Call_SearchForm [(''type'', ''o'')], Call_is_valid, Call_PageNumberPagination,
         Call_get_object_list \<lparr>GET = [(''type'', ''o'')]\<rparr> \<lparr>q = ''*'', other_fields = ()\<rparr> 0,
         Call_paginate_queryset 0 [''a'', ''b'', ''c''] \<lparr>GET = [(''type'', ''o'')]\<rparr>,
         Call_SearchResultSerializer [''a'', ''b''] ''s'',
         Call_get_paginated_response 3 [''sa'', ''sb'']])"
proof -
  let ?r = "\<lparr>GET = [(''type'', ''o'')]\<rparr>"
  have v: "is_valid (SearchForm example_env (GET ?r))"
    by (simp add: example_defs)
  have p: "(let cd = cleaned_data (SearchForm example_env (GET ?r));
                cd = (if q cd = [] then cd\<lparr>q := ''*''\<rparr> else cd);
                pg = PageNumberPagination example_env;
                bound = [Call_SearchForm (GET ?r), Call_is_valid, Call_PageNumberPagination,
                         Call_get_object_list ?r cd pg]
            in case get_object_list example_env ?r cd pg of
                 Inl e \<Rightarrow> (Inl e, bound)
               | Inr sl \<Rightarrow>
                   (case paginate_queryset example_env pg sl ?r of
                      Inl e \<Rightarrow> (Inl e, bound @ [Call_paginate_queryset pg sl ?r])
                    | Inr (page, pg') \<Rightarrow>
                        (case conn_schema example_env sl of
                           Inl e \<Rightarrow> (Inl e, bound @ [Call_paginate_queryset pg sl ?r])
                         | Inr sch \<Rightarrow>
                             (case SearchResultSerializer example_env page sch of
                                Inl e \<Rightarrow>
                                  (Inl e, bound @ [Call_paginate_queryset pg sl ?r,
                                                   Call_SearchResultSerializer page sch])
                              | Inr d \<Rightarrow>
                                  (Inr (get_paginated_response example_env pg' d),
                                   bound @ [Call_paginate_queryset pg sl ?r,
                                            Call_SearchResultSerializer page sch,
                                            Call_get_paginated_response pg' d])))))
     = (Inr \<lparr>data = Envelope (3, [''sa'', ''sb'']), status = 200\<rparr>,
        [Call_SearchForm [(''type'', ''o'')], Call_is_valid, Call_PageNumberPagination,
         Call_get_object_list \<lparr>GET = [(''type'', ''o'')]\<rparr> \<lparr>q = ''*'', other_fields = ()\<rparr> 0,
         Call_paginate_queryset 0 [''a'', ''b'', ''c''] \<lparr>GET = [(''type'', ''o'')]\<rparr>,
         Call_SearchResultSerializer [''a'', ''b''] ''s'',
         Call_get_paginated_response 3 [''sa'', ''sb'']])"
    by (simp add: example_defs http_defs Let_def)
  from list_valid_steps [OF v]
  have "SearchViewSet_list example_env ?r =
       (Inr \<lparr>data = Envelope (3, [''sa'', ''sb'']), status = 200\<rparr>,
        [Call_SearchForm [(''type'', ''o'')], Call_is_valid, Call_PageNumberPagination,
         Call_get_object_list \<lparr>GET = [(''type'', ''o'')]\<rparr> \<lparr>q = ''*'', other_fields = ()\<rparr> 0,
         Call_paginate_queryset 0 [''a'', ''b'', ''c''] \<lparr>GET = [(''type'', ''o'')]\<rparr>,
         Call_SearchResultSerializer [''a'', ''b''] ''s'',
         Call_get_paginated_response 3 [''sa'', ''sb'']])"
    unfolding p by blast
  with v show ?thesis by blast
qed

text \<open>
  C3. The view never calls \<^verbatim>\<open>get_object_list\<close> with an empty query. With a valid form it
  calls the builder once, on the cleaned data with \<open>q\<close> replaced by \<^verbatim>\<open>*\<close> when \<open>q\<close> was
  empty and on the unchanged cleaned data otherwise, and what the view hands back is made
  from what the builder returned for exactly that argument. An invalid form makes no such
  call.
\<close>

theorem list_never_passes_empty_query:
  "(\<forall>c \<in> set (snd (SearchViewSet_list env req)). \<forall>r cd pg.
       c = Call_get_object_list r cd pg \<longrightarrow> q cd \<noteq> [])
   \<and> (is_valid (SearchForm env (GET req)) \<longrightarrow>
        (\<exists>cd. q cd \<noteq> []
                      \<and> (q (cleaned_data (SearchForm env (GET req))) = [] \<longrightarrow>
                           cd = (cleaned_data (SearchForm env (GET req)))\<lparr>q := ''*''\<rparr>)
                      \<and> (q (cleaned_data (SearchForm env (GET req))) \<noteq> [] \<longrightarrow>
                           cd = cleaned_data (SearchForm env (GET req)))
                      \<and> filter is_get_object_list_call (snd (SearchViewSet_list env req))
                          = [Call_get_object_list req cd (PageNumberPagination env)]
                      \<and> fst (SearchViewSet_list env req) =
                          (case get_object_list env req cd (PageNumberPagination env) of
                             Inl e \<Rightarrow> Inl e
                           | Inr sl \<Rightarrow>
                               (case paginate_queryset env (PageNumberPagination env) sl req of
                                  Inl e \<Rightarrow> Inl e
                                | Inr (page, pg') \<Rightarrow>
                                    (case conn_schema env sl of
                                       Inl e \<Rightarrow> Inl e
                                     | Inr sch \<Rightarrow>
                                         (case SearchResultSerializer env page sch of
                                            Inl e \<Rightarrow> Inl e
                                          | Inr d \<Rightarrow> Inr (get_paginated_response env pg' d)))))))
   \<and> (\<not> is_valid (SearchForm env (GET req)) \<longrightarrow>
        filter is_get_object_list_call (snd (SearchViewSet_list env req)) = [])"
proof (cases "is_valid (SearchForm env (GET req))")
  case False
  then show ?thesis by (simp add: list_invalid)
next
  case True
  define cd where "cd = (if q (cleaned_data (SearchForm env (GET req))) = []
               then (cleaned_data (SearchForm env (GET req)))\<lparr>q := ''*''\<rparr>
               else cleaned_data (SearchForm env (GET req)))"
  note eq = list_valid [OF True cd_def refl]
  have n: "q cd \<noteq> []" by (simp add: cd_def)
  have e: "q (cleaned_data (SearchForm env (GET req))) = [] \<longrightarrow>
                cd = (cleaned_data (SearchForm env (GET req)))\<lparr>q := ''*''\<rparr>"
    by (simp add: cd_def)
  have u: "q (cleaned_data (SearchForm env (GET req))) \<noteq> [] \<longrightarrow>
                cd = cleaned_data (SearchForm env (GET req))"
    by (simp add: cd_def)
  have f: "filter is_get_object_list_call (snd (SearchViewSet_list env req))
               = [Call_get_object_list req cd (PageNumberPagination env)]"
    by (simp add: eq split: sum.splits prod.splits)
  have a: "\<forall>c \<in> set (snd (SearchViewSet_list env req)). \<forall>r cd' pg.
       c = Call_get_object_list r cd' pg \<longrightarrow> q cd' \<noteq> []"
    using n by (auto simp: eq split: sum.splits prod.splits)
  have r: "fst (SearchViewSet_list env req) =
               (case get_object_list env req cd (PageNumberPagination env) of
                  Inl e \<Rightarrow> Inl e
                | Inr sl \<Rightarrow>
                    (case paginate_queryset env (PageNumberPagination env) sl req of
                       Inl e \<Rightarrow> Inl e
                     | Inr (page, pg') \<Rightarrow>
                         (case conn_schema env sl of
                            Inl e \<Rightarrow> Inl e
                          | Inr sch \<Rightarrow>
                              (case SearchResultSerializer env page sch of
                                 Inl e \<Rightarrow> Inl e
                               | Inr d \<Rightarrow> Inr (get_paginated_response env pg' d)))))"
    by (simp add: eq split: sum.splits prod.splits)
  from n e u f r have "\<exists>cd. q cd \<noteq> []
                                    \<and> (q (cleaned_data (SearchForm env (GET req))) = [] \<longrightarrow>
                                         cd = (cleaned_data (SearchForm env (GET req)))\<lparr>q := ''*''\<rparr>)
                                    \<and> (q (cleaned_data (SearchForm env (GET req))) \<noteq> [] \<longrightarrow>
                                         cd = cleaned_data (SearchForm env (GET req)))
                                    \<and> filter is_get_object_list_call (snd (SearchViewSet_list env req))
                                        = [Call_get_object_list req cd (PageNumberPagination env)]
                                    \<and> fst (SearchViewSet_list env req) =
                                        (case get_object_list env req cd (PageNumberPagination env) of
                                           Inl e \<Rightarrow> Inl e
                                         | Inr sl \<Rightarrow>
                                             (case paginate_queryset env (PageNumberPagination env) sl req of
                                                Inl e \<Rightarrow> Inl e
                                              | Inr (page, pg') \<Rightarrow>
                                                  (case conn_schema env sl of
                                                     Inl e \<Rightarrow> Inl e
                                                   | Inr sch \<Rightarrow>
                                                       (case SearchResultSerializer env page sch of
                                                          Inl e \<Rightarrow> Inl e
                                                        | Inr d \<Rightarrow> Inr (get_paginated_response env pg' d)))))"
    by (intro exI [of _ cd] conjI)
  with a True show ?thesis by blast
qed

text \<open>
  The empty query of the example form reaches the builder as \<^verbatim>\<open>*\<close> and the response
  holds the first page of the three documents found for \<^verbatim>\<open>*\<close>; the query \<^verbatim>\<open>roe\<close>
  reaches the builder as the form cleaned it.
\<close>

theorem list_never_passes_empty_query_witness:
  "is_valid (SearchForm example_env (GET \<lparr>GET = [(''q'', [])]\<rparr>))
   \<and> q (cleaned_data (SearchForm example_env (GET \<lparr>GET = [(''q'', [])]\<rparr>))) = []
   \<and> filter is_get_object_list_call (snd (SearchViewSet_list example_env \<lparr>GET = [(''q'', [])]\<rparr>))
       = [Call_get_object_list \<lparr>GET = [(''q'', [])]\<rparr> \<lparr>q = ''*'', other_fields = ()\<rparr> 0]
   \<and> fst (SearchViewSet_list example_env \<lparr>GET = [(''q'', [])]\<rparr>)
       = Inr \<lparr>data = Envelope (3, [''sa'', ''sb'']), status = 200\<rparr>
   \<and> is_valid (SearchForm example_env (GET \<lparr>GET = [(''q'', ''roe'')]\<rparr>))
   \<and> q (cleaned_data (SearchForm example_env (GET \<lparr>GET = [(''q'', ''roe'')]\<rparr>))) \<noteq> []
   \<and> filter is_get_object_list_call
        (snd (SearchViewSet_list example_env \<lparr>GET = [(''q'', ''roe'')]\<rparr>))
       = [Call_get_object_list \<lparr>GET = [(''q'', ''roe'')]\<rparr> \<lparr>q = ''roe'', other_fields = ()\<rparr> 0]"
proof -
  let ?r = "\<lparr>GET = [(''q'', [])]\<rparr>"
  let ?s = "\<lparr>GET = [(''q'', ''roe'')]\<rparr>"
  have v: "is_valid (SearchForm example_env (GET ?r))"
    by (simp add: example_defs)
  have e: "q (cleaned_data (SearchForm example_env (GET ?r))) = []"
    by (simp add: example_defs)
  from list_never_passes_empty_query [of example_env ?r] v e
  obtain cd where
    c: "cd = (cleaned_data (SearchForm example_env (GET ?r)))\<lparr>q := ''*''\<rparr>"
    and f: "filter is_get_object_list_call (snd (SearchViewSet_list example_env ?r))
               = [Call_get_object_list ?r cd (PageNumberPagination example_env)]"
    and r: "fst (SearchViewSet_list example_env ?r) =
               (case get_object_list example_env ?r cd (PageNumberPagination example_env) of
                  Inl e \<Rightarrow> Inl e
                | Inr sl \<Rightarrow>
                    (case paginate_queryset example_env (PageNumberPagination example_env) sl ?r of
                       Inl e \<Rightarrow> Inl e
                     | Inr (page, pg') \<Rightarrow>
                         (case conn_schema example_env sl of
                            Inl e \<Rightarrow> Inl e
                          | Inr sch \<Rightarrow>
                              (case SearchResultSerializer example_env page sch of
                                 Inl e \<Rightarrow> Inl e
                               | Inr d \<Rightarrow> Inr (get_paginated_response example_env pg' d)))))"
    by blast
  have c': "cd = \<lparr>q = ''*'', other_fields = ()\<rparr>"
    by (simp add: c example_defs)
  have f': "filter is_get_object_list_call (snd (SearchViewSet_list example_env ?r))
       = [Call_get_object_list ?r \<lparr>q = ''*'', other_fields = ()\<rparr> 0]"
    using f by (simp add: c' example_env_def)
  have r': "fst (SearchViewSet_list example_env ?r)
       = Inr \<lparr>data = Envelope (3, [''sa'', ''sb'']), status = 200\<rparr>"
    using r by (simp add: c' example_defs http_defs)
  have v2: "is_valid (SearchForm example_env (GET ?s))"
    by (simp add: example_defs)
  have e2: "q (cleaned_data (SearchForm example_env (GET ?s))) \<noteq> []"
    by (simp add: example_defs)
  from list_never_passes_empty_query [of example_env ?s] v2 e2
  obtain cd2 where
    c2: "cd2 = cleaned_data (SearchForm example_env (GET ?s))"
    and f2: "filter is_get_object_list_call (snd (SearchViewSet_list example_env ?s))
               = [Call_get_object_list ?s cd2 (PageNumberPagination example_env)]"
    by blast
  have c2': "cd2 = \<lparr>q = ''roe'', other_fields = ()\<rparr>"
    by (simp add: c2 example_defs)
  have f2': "filter is_get_object_list_call (snd (SearchViewSet_list example_env ?s))
       = [Call_get_object_list ?s \<lparr>q = ''roe'', other_fields = ()\<rparr> 0]"
    using f2 by (simp add: c2' example_env_def)
  from v e f' r' v2 e2 f2' show ?thesis by blast
qed

section \<open>What the viewsets declare\<close>

text \<open>
  C4 as stated fails: \<^verbatim>\<open>OriginatingCourtInformationViewSet\<close> sets a serializer only; it has
  no filter class, no permission classes and its queryset is a plain \<^verbatim>\<open>all()\<close>.
\<close>

theorem not_every_viewset_selects_all_four:
  "OriginatingCourtInformationViewSet \<in> set viewsets
   \<and> \<not> selects_all_four example_externals OriginatingCourtInformationViewSet"
  by (simp add: viewsets_def selects_all_four_def OriginatingCourtInformationViewSet_def)

lemma eager_loading_simps:
  "has_eager_loading (OriginatingCourtInformationViewSet_get_queryset ext) = False"
  "has_eager_loading (DocketViewSet_get_queryset ext) = True"
  "has_eager_loading (DocketEntryViewSet_get_queryset ext) = True"
  "has_eager_loading (RECAPDocumentViewSet_get_queryset ext) = True"
  "has_eager_loading (CourtViewSet_get_queryset ext) = False"
  "has_eager_loading (OpinionClusterViewSet_get_queryset ext) = True"
  "has_eager_loading (OpinionViewSet_get_queryset ext) = True"
  "has_eager_loading (OpinionsCitedViewSet_get_queryset ext) = False"
  "has_eager_loading (TagViewSet_get_queryset ext) = False"
  by (simp_all add: has_eager_loading_def get_queryset_defs qs_defs)

text \<open>
  C4, amended. Every model viewset of the file selects a serializer and a queryset. A
  filter class is selected by seven of the nine (not by \<^verbatim>\<open>OriginatingCourtInformationViewSet\<close>
  and \<^verbatim>\<open>TagViewSet\<close>), permission classes by \<^verbatim>\<open>DocketEntryViewSet\<close>, \<^verbatim>\<open>RECAPDocumentViewSet\<close>,
  \<^verbatim>\<open>TagViewSet\<close> and \<^verbatim>\<open>SearchViewSet\<close> only, and eager-loading hints by the querysets of the
  Docket, DocketEntry, RECAPDocument, OpinionCluster and Opinion viewsets only.
  \<^verbatim>\<open>SearchViewSet\<close> selects permission classes and nothing else.
\<close>

theorem what_each_viewset_selects:
  "map name (filter (\<lambda>v. serializer_class v \<noteq> None) viewsets) =
     [''OriginatingCourtInformationViewSet'', ''DocketViewSet'', ''DocketEntryViewSet'',
      ''RECAPDocumentViewSet'', ''CourtViewSet'', ''OpinionClusterViewSet'', ''OpinionViewSet'',
      ''OpinionsCitedViewSet'', ''TagViewSet'']
   \<and> map name (filter (\<lambda>v. get_queryset v \<noteq> None) viewsets) =
     [''OriginatingCourtInformationViewSet'', ''DocketViewSet'', ''DocketEntryViewSet'',
      ''RECAPDocumentViewSet'', ''CourtViewSet'', ''OpinionClusterViewSet'', ''OpinionViewSet'',
      ''OpinionsCitedViewSet'', ''TagViewSet'']
   \<and> map name (filter (\<lambda>v. filter_class v \<noteq> None) viewsets) =
     [''DocketViewSet'', ''DocketEntryViewSet'', ''RECAPDocumentViewSet'', ''CourtViewSet'',
      ''OpinionClusterViewSet'', ''OpinionViewSet'', ''OpinionsCitedViewSet'']
   \<and> map name (filter (\<lambda>v. permission_classes v \<noteq> None) viewsets) =
     [''DocketEntryViewSet'', ''RECAPDocumentViewSet'', ''TagViewSet'', ''SearchViewSet'']
   \<and> map name (filter (\<lambda>v. case get_queryset v of None \<Rightarrow> False
                                | Some g \<Rightarrow> has_eager_loading (g ext)) viewsets) =
     [''DocketViewSet'', ''DocketEntryViewSet'', ''RECAPDocumentViewSet'',
      ''OpinionClusterViewSet'', ''OpinionViewSet'']"
  by (simp add: viewsets_def viewset_defs eager_loading_simps)

text \<open>
  C5 as stated fails: \<^verbatim>\<open>TagViewSet\<close> is a model viewset that declares neither a filter class
  nor ordering fields.
\<close>

theorem not_every_model_viewset_filters_and_orders:
  "TagViewSet \<in> set viewsets \<and> is_model_viewset TagViewSet
   \<and> \<not> declares_filter_and_ordering TagViewSet"
  by (simp add: viewsets_def is_model_viewset_def declares_filter_and_ordering_def TagViewSet_def)

text \<open>
  C5, amended. Six of the nine model viewsets (Docket, DocketEntry, RECAPDocument, Court,
  OpinionCluster, Opinion) declare both a filter class and ordering fields;
  \<^verbatim>\<open>OpinionsCitedViewSet\<close> declares a filter class and no ordering fields;
  \<^verbatim>\<open>OriginatingCourtInformationViewSet\<close> and \<^verbatim>\<open>TagViewSet\<close> declare neither.
\<close>

theorem which_model_viewsets_filter_and_order:
  "map name (filter declares_filter_and_ordering (filter is_model_viewset viewsets)) =
     [''DocketViewSet'', ''DocketEntryViewSet'', ''RECAPDocumentViewSet'', ''CourtViewSet'',
      ''OpinionClusterViewSet'', ''OpinionViewSet'']
   \<and> map name (filter (\<lambda>v. filter_class v \<noteq> None \<and> ordering_fields v = None)
        (filter is_model_viewset viewsets)) = [''OpinionsCitedViewSet'']
   \<and> map name (filter (\<lambda>v. filter_class v = None \<and> ordering_fields v = None)
        (filter is_model_viewset viewsets)) =
     [''OriginatingCourtInformationViewSet'', ''TagViewSet'']"
  by (simp add: viewsets_def viewset_defs is_model_viewset_def declares_filter_and_ordering_def)

lemma viewsets_cases:
  assumes "v \<in> set viewsets"
  obtains "v = OriginatingCourtInformationViewSet" | "v = DocketViewSet"
    | "v = DocketEntryViewSet" | "v = RECAPDocumentViewSet" | "v = CourtViewSet"
    | "v = OpinionClusterViewSet" | "v = OpinionViewSet" | "v = OpinionsCitedViewSet"
    | "v = TagViewSet" | "v = SearchViewSet"
  using assms unfolding viewsets_def by auto

text \<open>
  C6. Every viewset of the file that serves a model (it has a \<^verbatim>\<open>get_queryset\<close>) derives from
  \<^verbatim>\<open>ModelViewSet\<close> and so exposes list, retrieve, create, update and delete. \<^verbatim>\<open>SearchViewSet\<close>
  serves no model and exposes only the list handler it defines.
\<close>

theorem model_viewsets_expose_crud:
  "(\<forall>v \<in> set viewsets. is_model_viewset v \<longrightarrow>
      ModelViewSet \<in> set (bases v) \<and>
      set [A_list, A_retrieve, A_create, A_update, A_destroy] \<subseteq> set (handlers v))
   \<and> \<not> is_model_viewset SearchViewSet \<and> handlers SearchViewSet = [A_list]"
proof -
  have "ModelViewSet \<in> set (bases v) \<and>
      set [A_list, A_retrieve, A_create, A_update, A_destroy] \<subseteq> set (handlers v)"
    if "v \<in> set viewsets" "is_model_viewset v" for v
    using that
    by (elim viewsets_cases) (simp_all add: viewset_defs is_model_viewset_def handlers_def)
  moreover have "\<not> is_model_viewset SearchViewSet \<and> handlers SearchViewSet = [A_list]"
    by (simp add: SearchViewSet_def is_model_viewset_def handlers_def)
  ultimately show ?thesis by blast
qed

text \<open>
  The docket viewset is one of them.
\<close>

theorem model_viewsets_expose_crud_witness:
  "DocketViewSet \<in> set viewsets \<and> is_model_viewset DocketViewSet
   \<and> ModelViewSet \<in> set (bases DocketViewSet)
   \<and> set [A_list, A_retrieve, A_create, A_update, A_destroy] \<subseteq> set (handlers DocketViewSet)"
proof -
  have m: "DocketViewSet \<in> set viewsets" by (simp add: viewsets_def)
  have i: "is_model_viewset DocketViewSet" by (simp add: is_model_viewset_def DocketViewSet_def)
  from model_viewsets_expose_crud m i show ?thesis by blast
qed

lemma court_rows_not_testing:
  "r \<in> set (run_query tables (CourtViewSet_get_queryset ext)) \<Longrightarrow>
   map_of r ''jurisdiction'' \<noteq> Some (TESTING_COURT ext)"
  by (simp add: run_query_def CourtViewSet_get_queryset_def qs_defs matches_def)

lemma list_rows_subset: "r \<in> set (ModelViewSet_list p off n rows) \<Longrightarrow> r \<in> set rows"
  unfolding ModelViewSet_list_def
  by (auto dest!: in_set_takeD in_set_dropD)

lemma retrieve_row_member: "ModelViewSet_retrieve p k rows = Some r \<Longrightarrow> r \<in> set rows"
  unfolding ModelViewSet_retrieve_def
  by (auto simp: find_Some_iff dest: nth_mem)

text \<open>
  C7. No row of the queryset \<^verbatim>\<open>CourtViewSet.get_queryset\<close> returns has the jurisdiction
  \<^verbatim>\<open>Court.TESTING_COURT\<close>, whatever the tables hold, and so neither has any row that the
  list or the retrieve handler serves from it.
\<close>

theorem court_queryset_excludes_testing_courts:
  "(\<forall>r \<in> set (run_query tables (CourtViewSet_get_queryset ext)).
      map_of r ''jurisdiction'' \<noteq> Some (TESTING_COURT ext))
   \<and> (\<forall>r \<in> set (ModelViewSet_list p off n (run_query tables (CourtViewSet_get_queryset ext))).
      map_of r ''jurisdiction'' \<noteq> Some (TESTING_COURT ext))
   \<and> (\<forall>r. ModelViewSet_retrieve p k (run_query tables (CourtViewSet_get_queryset ext)) = Some r
      \<longrightarrow> map_of r ''jurisdiction'' \<noteq> Some (TESTING_COURT ext))"
  using court_rows_not_testing list_rows_subset retrieve_row_member by blast

text \<open>
  With a federal court and a testing court in the table, only the federal court comes back.
\<close>

theorem court_queryset_excludes_testing_courts_witness:
  "run_query example_tables (CourtViewSet_get_queryset example_externals) =
     [[(''pk'', ''scotus''), (''jurisdiction'', ''F'')]]
   \<and> [(''pk'', ''scotus''), (''jurisdiction'', ''F'')]
       \<in> set (run_query example_tables (CourtViewSet_get_queryset example_externals))
   \<and> map_of [(''pk'', ''scotus''), (''jurisdiction'', ''F'')] ''jurisdiction''
       \<noteq> Some (TESTING_COURT example_externals)"
proof -
  have e: "run_query example_tables (CourtViewSet_get_queryset example_externals) =
     [[(''pk'', ''scotus''), (''jurisdiction'', ''F'')]]"
    by (simp add: run_query_def CourtViewSet_get_queryset_def qs_defs matches_def
        database_of_def example_tables_def example_externals_def)
  have m: "[(''pk'', ''scotus''), (''jurisdiction'', ''F'')]
       \<in> set (run_query example_tables (CourtViewSet_get_queryset example_externals))"
    by (simp add: e)
  from court_queryset_excludes_testing_courts [of example_tables example_externals] e m
  show ?thesis by blast
qed

text \<open>
  C8 as stated fails in its second half: the file does not keep a queryset away from the
  default database, it uses whatever alias \<^verbatim>\<open>get_api_read_db()\<close> returns. Where that
  function returns \<^verbatim>\<open>default\<close>, the queryset runs against the default database.
\<close>

theorem read_db_may_be_the_default:
  "OriginatingCourtInformationViewSet \<in> set viewsets
   \<and> get_queryset OriginatingCourtInformationViewSet
       = Some OriginatingCourtInformationViewSet_get_queryset
   \<and> database_of (OriginatingCourtInformationViewSet_get_queryset
        \<lparr>get_api_read_db = ''default'', TESTING_COURT = ''T''\<rparr>) = ''default''"
  by (simp add: viewsets_def OriginatingCourtInformationViewSet_def
      OriginatingCourtInformationViewSet_get_queryset_def qs_defs database_of_def)

text \<open>
  C8. Every \<^verbatim>\<open>get_queryset\<close> of the file builds its queryset with
  \<^verbatim>\<open>using(get_api_read_db())\<close>: the alias of the queryset is set, to the one that function
  returned, the rows it yields are rows of the tables of that database, and the database
  is the default one exactly when \<^verbatim>\<open>get_api_read_db()\<close> returned the default alias.
\<close>

theorem querysets_use_the_read_db:
  "\<forall>v \<in> set viewsets. \<forall>g. get_queryset v = Some g \<longrightarrow>
     db (g ext) = Some (get_api_read_db ext)
     \<and> database_of (g ext) = get_api_read_db ext
     \<and> set (run_query tables (g ext)) \<subseteq> set (tables (model (g ext)) (get_api_read_db ext))
     \<and> (database_of (g ext) = ''default'') = (get_api_read_db ext = ''default'')"
proof (intro ballI allI impI)
  fix v g
  assume "v \<in> set viewsets" "get_queryset v = Some g"
  then have d: "db (g ext) = Some (get_api_read_db ext)"
    by (elim viewsets_cases) (auto simp: viewset_defs get_queryset_defs qs_defs)
  then have a: "database_of (g ext) = get_api_read_db ext"
    by (simp add: database_of_def)
  have s: "set (run_query tables (g ext)) \<subseteq> set (tables (model (g ext)) (get_api_read_db ext))"
    by (auto simp: run_query_def a)
  from d a s show "db (g ext) = Some (get_api_read_db ext)
     \<and> database_of (g ext) = get_api_read_db ext
     \<and> set (run_query tables (g ext)) \<subseteq> set (tables (model (g ext)) (get_api_read_db ext))
     \<and> (database_of (g ext) = ''default'') = (get_api_read_db ext = ''default'')"
    by simp
qed

text \<open>
  The docket queryset, with \<^verbatim>\<open>get_api_read_db()\<close> returning the alias of a replica.
\<close>

theorem querysets_use_the_read_db_witness:
  "DocketViewSet \<in> set viewsets
   \<and> get_queryset DocketViewSet = Some DocketViewSet_get_queryset
   \<and> db (DocketViewSet_get_queryset example_externals) = Some ''replica''
   \<and> database_of (DocketViewSet_get_queryset example_externals) \<noteq> ''default''"
proof -
  have m: "DocketViewSet \<in> set viewsets" by (simp add: viewsets_def)
  have g: "get_queryset DocketViewSet = Some DocketViewSet_get_queryset"
    by (simp add: DocketViewSet_def)
  have r: "get_api_read_db example_externals = ''replica''" by (simp add: example_externals_def)
  from querysets_use_the_read_db [of example_externals example_tables] m g
  have "db (DocketViewSet_get_queryset example_externals) = Some (get_api_read_db example_externals)
    \<and> (database_of (DocketViewSet_get_queryset example_externals) = ''default'')
        = (get_api_read_db example_externals = ''default'')"
    by blast
  with m g r show ?thesis by simp
qed

text \<open>
  C9. The only response the code of this file constructs itself is the 400 of an invalid
  search form. Every \<^verbatim>\<open>Response(...)\<close> call of \<^verbatim>\<open>SearchViewSet.list\<close> carries the form's errors
  and the status 400 and happens only when the form is invalid, and an invalid form gets
  exactly that. Any other response the view returns is the one the paginator made, any
  exception that leaves the view was raised by the builder, the paginator, the read
  of the schema or the serializer, and no other viewset of the file defines a handler of
  its own.
\<close>

theorem only_error_response_is_the_search_400:
  "(\<forall>c \<in> set (snd (SearchViewSet_list env req)). \<forall>e s. c = Call_Response e s \<longrightarrow>
      s = HTTP_400_BAD_REQUEST \<and> e = errors (SearchForm env (GET req))
      \<and> \<not> is_valid (SearchForm env (GET req)))
   \<and> (\<not> is_valid (SearchForm env (GET req)) \<longrightarrow>
        SearchViewSet_list env req =
          (Inr (Response (Errors (errors (SearchForm env (GET req)))) HTTP_400_BAD_REQUEST),
           [Call_SearchForm (GET req), Call_is_valid,
            Call_Response (errors (SearchForm env (GET req))) HTTP_400_BAD_REQUEST]))
   \<and> (\<forall>r. fst (SearchViewSet_list env req) = Inr r \<longrightarrow>
        r \<noteq> Response (Errors (errors (SearchForm env (GET req)))) HTTP_400_BAD_REQUEST \<longrightarrow>
        is_valid (SearchForm env (GET req)) \<and>
        (\<exists>pg d. r = get_paginated_response env pg d
                 \<and> last (snd (SearchViewSet_list env req)) = Call_get_paginated_response pg d))
   \<and> (\<forall>x. fst (SearchViewSet_list env req) = Inl x \<longrightarrow>
        is_valid (SearchForm env (GET req)) \<and>
        ((\<exists>r cd pg. last (snd (SearchViewSet_list env req)) = Call_get_object_list r cd pg
                    \<and> get_object_list env r cd pg = Inl x)
         \<or> (\<exists>pg sl r. last (snd (SearchViewSet_list env req)) = Call_paginate_queryset pg sl r
                    \<and> paginate_queryset env pg sl r = Inl x)
         \<or> (\<exists>pg sl r. last (snd (SearchViewSet_list env req)) = Call_paginate_queryset pg sl r
                    \<and> conn_schema env sl = Inl x)
         \<or> (\<exists>page sch. last (snd (SearchViewSet_list env req)) = Call_SearchResultSerializer page sch
                    \<and> SearchResultSerializer env page sch = Inl x)))
   \<and> (\<forall>v \<in> set viewsets. own_handlers v \<noteq> [] \<longrightarrow> name v = ''SearchViewSet'')"
proof -
  have h: "name v = ''SearchViewSet''" if "v \<in> set viewsets" "own_handlers v \<noteq> []" for v
    using that by (elim viewsets_cases) (simp_all add: viewset_defs)
  show ?thesis
  proof (cases "is_valid (SearchForm env (GET req))")
    case False
    then show ?thesis using h by (simp add: list_invalid)
  next
    case True
    note eq = list_valid [OF True refl refl]
    have a: "\<forall>c \<in> set (snd (SearchViewSet_list env req)). \<forall>e s. c \<noteq> Call_Response e s"
      by (auto simp: eq split: sum.splits prod.splits)
    have b: "\<forall>r. fst (SearchViewSet_list env req) = Inr r \<longrightarrow>
        (\<exists>pg d. r = get_paginated_response env pg d
                 \<and> last (snd (SearchViewSet_list env req)) = Call_get_paginated_response pg d)"
      by (auto simp: eq split: sum.splits prod.splits)
    have c: "\<forall>x. fst (SearchViewSet_list env req) = Inl x \<longrightarrow>
        (\<exists>r cd pg. last (snd (SearchViewSet_list env req)) = Call_get_object_list r cd pg
                    \<and> get_object_list env r cd pg = Inl x)
        \<or> (\<exists>pg sl r. last (snd (SearchViewSet_list env req)) = Call_paginate_queryset pg sl r
                    \<and> paginate_queryset env pg sl r = Inl x)
        \<or> (\<exists>pg sl r. last (snd (SearchViewSet_list env req)) = Call_paginate_queryset pg sl r
                    \<and> conn_schema env sl = Inl x)
        \<or> (\<exists>page sch. last (snd (SearchViewSet_list env req)) = Call_SearchResultSerializer page sch
                    \<and> SearchResultSerializer env page sch = Inl x)"
      by (auto simp: eq split: sum.splits prod.splits)
    from a b c h True show ?thesis by blast
  qed
qed

text \<open>
  A request the example form rejects gets the 400; a page out of range gets no response
  from the view but the paginator's exception.
\<close>

theorem only_error_response_is_the_search_400_witness:
  "\<not> is_valid (SearchForm example_env (GET \<lparr>GET = [(''type'', ''x'')]\<rparr>))
   \<and> SearchViewSet_list example_env \<lparr>GET = [(''type'', ''x'')]\<rparr> =
       (Inr \<lparr>data = Errors [(''type'', [''Select a valid choice.''])], status = 400\<rparr>,
        [Call_SearchForm [(''type'', ''x'')], Call_is_valid,
         Call_Response [(''type'', [''Select a valid choice.''])] 400])
   \<and> Call_Response [(''type'', [''Select a valid choice.''])] 400
       \<in> set (snd (SearchViewSet_list example_env \<lparr>GET = [(''type'', ''x'')]\<rparr>))
   \<and> HTTP_400_BAD_REQUEST = 400
   \<and> SearchViewSet \<in> set viewsets \<and> own_handlers SearchViewSet \<noteq> []
   \<and> name SearchViewSet = ''SearchViewSet''"
proof -
  let ?r = "\<lparr>GET = [(''type'', ''x'')]\<rparr>"
  have v: "\<not> is_valid (SearchForm example_env (GET ?r))"
    by (simp add: example_defs)
  have x: "(Inr (Response (Errors (errors (SearchForm example_env (GET ?r)))) HTTP_400_BAD_REQUEST),
           [Call_SearchForm (GET ?r), Call_is_valid,
            Call_Response (errors (SearchForm example_env (GET ?r))) HTTP_400_BAD_REQUEST])
       = (Inr \<lparr>data = Errors [(''type'', [''Select a valid choice.''])], status = 400\<rparr>,
        [Call_SearchForm [(''type'', ''x'')], Call_is_valid,
         Call_Response [(''type'', [''Select a valid choice.''])] 400])"
    by (simp add: example_defs http_defs)
  from only_error_response_is_the_search_400 [of example_env ?r] v
  have l: "SearchViewSet_list example_env ?r =
       (Inr \<lparr>data = Errors [(''type'', [''Select a valid choice.''])], status = 400\<rparr>,
        [Call_SearchForm [(''type'', ''x'')], Call_is_valid,
         Call_Response [(''type'', [''Select a valid choice.''])] 400])"
    unfolding x by blast
  have m: "Call_Response [(''type'', [''Select a valid choice.''])] 400
       \<in> set (snd (SearchViewSet_list example_env ?r))"
    by (simp add: l)
  from only_error_response_is_the_search_400 [of example_env ?r] m
  have s: "(400::nat) = HTTP_400_BAD_REQUEST" by blast
  have w: "SearchViewSet \<in> set viewsets" by (simp add: viewsets_def)
  have o: "own_handlers SearchViewSet \<noteq> []" by (simp add: SearchViewSet_def)
  from only_error_response_is_the_search_400 [of example_env ?r] w o
  have n: "name SearchViewSet = ''SearchViewSet''" by blast
  from v l m s w o n show ?thesis by simp
qed

end
